theory Spec2Isabelle
  imports Complex_Main "HOL-Library.AList"
begin

section \<open>Python values, strings and dictionaries\<close>

text \<open>
  The gateway of \<^verbatim>\<open>src/orchestration/llm_gateway.py\<close> works on Python strings,
  dictionaries of type \<^verbatim>\<open>Dict[str, Any]\<close> and two dataclasses. A Python \<^verbatim>\<open>str\<close> is a
  \<^typ>\<open>string\<close> holding the UTF-8 encoding of the text, so the Chinese literals of the
  source are written as their bytes. A dictionary is an association list in insertion
  order; \<^const>\<open>map_of\<close> looks a key up and \<^const>\<open>AList.update\<close> stores a value the way
  Python does (in place when the key exists, at the end otherwise).
\<close>

datatype pyval =
    PNone
  | PBool bool
  | PInt int
  | PFloat real
  | PStr string
  | PList "pyval list"
  | PDict "(string \<times> pyval) list"

type_synonym pydict = "(string \<times> pyval) list"

definition dict_get :: "pydict \<Rightarrow> string \<Rightarrow> pyval \<Rightarrow> pyval" where
  \<comment> \<open>\<^verbatim>\<open>d.get(k, default)\<close>\<close>
  "dict_get d k dflt = (case map_of d k of None \<Rightarrow> dflt | Some v \<Rightarrow> v)"

definition dict_has :: "pydict \<Rightarrow> string \<Rightarrow> bool" where
  \<comment> \<open>\<^verbatim>\<open>k in d\<close>\<close>
  "dict_has d k = (map_of d k \<noteq> None)"

definition dict_merge :: "pydict \<Rightarrow> pydict \<Rightarrow> pydict" where
  \<comment> \<open>\<^verbatim>\<open>{**d, **kwargs}\<close>: the entries of \<open>kwargs\<close> are stored one after the other\<close>
  "dict_merge d kwargs = fold (\<lambda>(k, v). AList.update k v) kwargs d"

primrec startswith :: "string \<Rightarrow> string \<Rightarrow> bool" where
  \<comment> \<open>\<open>startswith s sub\<close>: \<^verbatim>\<open>s.startswith(sub)\<close>\<close>
  "startswith s [] = True"
| "startswith s (c # cs) = (case s of [] \<Rightarrow> False | d # ds \<Rightarrow> c = d \<and> startswith ds cs)"

primrec str_contains :: "string \<Rightarrow> string \<Rightarrow> bool" where
  \<comment> \<open>\<open>str_contains sub s\<close>: \<^verbatim>\<open>sub in s\<close>\<close>
  "str_contains sub [] = (sub = [])"
| "str_contains sub (c # cs) = (startswith (c # cs) sub \<or> str_contains sub cs)"

definition ascii_lower_char :: "char \<Rightarrow> char" where
  "ascii_lower_char c =
     (case map_of (zip ''ABCDEFGHIJKLMNOPQRSTUVWXYZ'' ''abcdefghijklmnopqrstuvwxyz'') c of
        None \<Rightarrow> c
      | Some l \<Rightarrow> l)"

definition ascii_lower :: "string \<Rightarrow> string" where
  \<comment> \<open>the letters A to Z in lower case, every other byte kept: what \<^verbatim>\<open>s.lower()\<close> is on
      ASCII text\<close>
  "ascii_lower s = map ascii_lower_char s"

definition is_ascii :: "string \<Rightarrow> bool" where
  \<comment> \<open>\<^verbatim>\<open>s.isascii()\<close>: every code point is below 128, so every byte of the encoding is\<close>
  "is_ascii s = list_all (\<lambda>c. (of_char c :: nat) < 128) s"

fun str_nat :: "nat \<Rightarrow> string" where
  "str_nat n =
     (if n < 10 then [''0123456789'' ! n]
      else str_nat (n div 10) @ [''0123456789'' ! (n mod 10)])"

definition str_int :: "int \<Rightarrow> string" where
  \<comment> \<open>\<^verbatim>\<open>str(i)\<close> of a Python int\<close>
  "str_int i = (if i < 0 then ''-'' @ str_nat (nat (- i)) else str_nat (nat i))"

section \<open>Messages, responses, exceptions\<close>

record LLMMessage =
  role :: string
  content :: string

definition to_dict :: "LLMMessage \<Rightarrow> pyval" where
  "to_dict msg = PDict [(''role'', PStr (role msg)), (''content'', PStr (content msg))]"

record LLMResponse =
  r_content :: string
  r_model :: string
  r_provider :: string
  r_usage :: "pydict option"
  r_metadata :: "pydict option"

text \<open>
  An exception is its class name and its \<^verbatim>\<open>str()\<close>. Only subclasses of \<^verbatim>\<open>Exception\<close>
  are values of this type: they are the ones \<^verbatim>\<open>except Exception\<close> catches.
\<close>

datatype exn = Exn (exn_class: string) (exn_str: string)

abbreviation ValueError :: "string \<Rightarrow> exn" where
  "ValueError m \<equiv> Exn ''ValueError'' m"

abbreviation Exception :: "string \<Rightarrow> exn" where
  "Exception m \<equiv> Exn ''Exception'' m"

section \<open>Providers and the world outside the gateway\<close>

text \<open>
  A provider object carries its name (\<^verbatim>\<open>get_provider_name()\<close>) and its configuration.
  What its \<^verbatim>\<open>generate\<close> method answers depends on the network, or on the test double
  behind it: it is the parameter \<open>ad\<close> of the gateway's functions, which gives the outcome of
  \<^verbatim>\<open>await llm_provider.generate(messages, **kwargs)\<close> from the provider, the number of
  adapter invocations made before this one, the messages and the keyword options. The
  outcome is an exception or a response.

  The effects of a call are recorded in a trace, oldest event first: every
  \<^verbatim>\<open>asyncio.sleep\<close> of the gateway with its duration and every invocation of an
  adapter with its arguments. Logging is not part of the model.
\<close>

record LLMProvider =
  provider_name :: string
  config :: pydict

definition OpenAIProvider :: "pydict \<Rightarrow> LLMProvider" where
  "OpenAIProvider cfg = \<lparr>provider_name = ''openai'', config = cfg\<rparr>"

definition ClaudeProvider :: "pydict \<Rightarrow> LLMProvider" where
  "ClaudeProvider cfg = \<lparr>provider_name = ''claude'', config = cfg\<rparr>"

definition KimiProvider :: "pydict \<Rightarrow> LLMProvider" where
  "KimiProvider cfg = \<lparr>provider_name = ''kimi'', config = cfg\<rparr>"

definition MockLLMProvider :: "pydict \<Rightarrow> LLMProvider" where
  "MockLLMProvider cfg = \<lparr>provider_name = ''mock'', config = cfg\<rparr>"

type_synonym adapters =
  "LLMProvider \<Rightarrow> nat \<Rightarrow> LLMMessage list \<Rightarrow> pydict \<Rightarrow> exn + LLMResponse"

datatype event =
    Sleep real
  | Call LLMProvider "LLMMessage list" pydict

type_synonym trace = "event list"

fun is_call :: "event \<Rightarrow> bool" where
  "is_call (Call p ms kw) = True"
| "is_call (Sleep d) = False"

definition ncalls :: "trace \<Rightarrow> nat" where
  "ncalls tr = length (filter is_call tr)"

section \<open>The gateway\<close>

text \<open>
  The gateway's configuration dictionary, with the keys the gateway reads and the types
  \<^verbatim>\<open>create_llm_gateway\<close> gives them; \<open>None\<close> is an absent key.
\<close>

record gateway_config =
  cfg_default_provider :: "string option"
  cfg_retry_count :: "int option"
  cfg_retry_delay :: "real option"
  cfg_mock_llm :: "bool option"
  cfg_openai :: "pydict option"
  cfg_claude :: "pydict option"
  cfg_kimi :: "pydict option"

record LLMGateway =
  providers :: "string \<rightharpoonup> LLMProvider"
  gateway_config :: gateway_config
  default_provider :: "LLMProvider option"

definition LLMGateway_init :: "gateway_config \<Rightarrow> LLMGateway" where
  \<comment> \<open>\<^verbatim>\<open>LLMGateway.__init__\<close>\<close>
  "LLMGateway_init cfg =
     \<lparr>providers = Map.empty, gateway_config = cfg, default_provider = None\<rparr>"

definition register_providers :: "LLMGateway \<Rightarrow> LLMGateway" where
  \<comment> \<open>\<^verbatim>\<open>LLMGateway._register_providers\<close>; \<^verbatim>\<open>if self.config.get(name)\<close> holds when
      the key is there and its dictionary is not empty\<close>
  "register_providers gw =
     (let cfg = gateway_config gw in
      if (case cfg_mock_llm cfg of None \<Rightarrow> False | Some b \<Rightarrow> b) then
        (let mock_provider = MockLLMProvider [] in
         gw\<lparr>providers := (providers gw)
              (''openai'' \<mapsto> mock_provider, ''claude'' \<mapsto> mock_provider,
               ''kimi'' \<mapsto> mock_provider, ''mock'' \<mapsto> mock_provider)\<rparr>)
      else
        (let gw1 = (case cfg_openai cfg of
                      None \<Rightarrow> gw
                    | Some c \<Rightarrow>
                        if c \<noteq> []
                        then gw\<lparr>providers := (providers gw)(''openai'' \<mapsto> OpenAIProvider c)\<rparr>
                        else gw);
             gw2 = (case cfg_claude cfg of
                      None \<Rightarrow> gw1
                    | Some c \<Rightarrow>
                        if c \<noteq> []
                        then gw1\<lparr>providers := (providers gw1)(''claude'' \<mapsto> ClaudeProvider c)\<rparr>
                        else gw1);
             gw3 = (case cfg_kimi cfg of
                      None \<Rightarrow> gw2
                    | Some c \<Rightarrow>
                        if c \<noteq> []
                        then gw2\<lparr>providers := (providers gw2)(''kimi'' \<mapsto> KimiProvider c)\<rparr>
                        else gw2)
         in gw3))"

definition default_provider_name :: "gateway_config \<Rightarrow> string" where
  \<comment> \<open>\<^verbatim>\<open>self.config.get("default_provider", "openai")\<close>\<close>
  "default_provider_name cfg =
     (case cfg_default_provider cfg of None \<Rightarrow> ''openai'' | Some n \<Rightarrow> n)"

definition initialize :: "LLMGateway \<Rightarrow> LLMGateway" where
  \<comment> \<open>\<^verbatim>\<open>LLMGateway.initialize\<close>\<close>
  "initialize gw =
     (let gw1 = register_providers gw;
          name = default_provider_name (gateway_config gw1)
      in case providers gw1 name of
           Some p \<Rightarrow> gw1\<lparr>default_provider := Some p\<rparr>
         | None \<Rightarrow> gw1)"

definition no_provider_available :: string where
  \<comment> \<open>the message of the \<^verbatim>\<open>ValueError\<close> of line 410\<close>
  "no_provider_available =
     [CHR 0xE6, CHR 0xB2, CHR 0xA1, CHR 0xE6, CHR 0x9C, CHR 0x89, CHR 0xE5, CHR 0x8F,
      CHR 0xAF, CHR 0xE7, CHR 0x94, CHR 0xA8, CHR 0xE7, CHR 0x9A, CHR 0x84] @ ''LLM'' @
     [CHR 0xE6, CHR 0x8F, CHR 0x90, CHR 0xE4, CHR 0xBE, CHR 0x9B, CHR 0xE5, CHR 0x95,
      CHR 0x86]"

definition failure_message :: "int \<Rightarrow> exn option \<Rightarrow> string" where
  \<comment> \<open>the f-string of line 439, built from \<^verbatim>\<open>retry_count\<close> and \<^verbatim>\<open>last_error\<close>\<close>
  "failure_message retry_count last_error =
     ''LLM'' @
     [CHR 0xE8, CHR 0xB0, CHR 0x83, CHR 0xE7, CHR 0x94, CHR 0xA8, CHR 0xE5, CHR 0xA4,
      CHR 0xB1, CHR 0xE8, CHR 0xB4, CHR 0xA5, CHR 0xEF, CHR 0xBC, CHR 0x8C, CHR 0xE5,
      CHR 0xB7, CHR 0xB2, CHR 0xE9, CHR 0x87, CHR 0x8D, CHR 0xE8, CHR 0xAF, CHR 0x95] @
     str_int retry_count @ [CHR 0xE6, CHR 0xAC, CHR 0xA1] @ '': '' @
     (case last_error of None \<Rightarrow> ''None'' | Some e \<Rightarrow> exn_str e)"

text \<open>
  The loop \<^verbatim>\<open>for attempt in range(retry_count)\<close> of \<^verbatim>\<open>generate\<close>, entered at
  \<open>attempt\<close>. It ends with the response of the first attempt that succeeds, or with
  \<^verbatim>\<open>last_error\<close> when the range is exhausted or left by \<^verbatim>\<open>break\<close>.
\<close>

function attempts ::
  "adapters \<Rightarrow> LLMProvider \<Rightarrow> LLMMessage list \<Rightarrow> pydict \<Rightarrow> int \<Rightarrow> real \<Rightarrow> int \<Rightarrow>
   exn option \<Rightarrow> trace \<Rightarrow> (exn option + LLMResponse) \<times> trace" where
  "attempts ad llm_provider messages kwargs retry_count retry_delay attempt last_error tr =
     (if attempt < retry_count then
        (let tr1 = (if attempt > 0 then tr @ [Sleep (retry_delay * of_int attempt)] else tr);
             tr2 = tr1 @ [Call llm_provider messages kwargs]
         in case ad llm_provider (ncalls tr1) messages kwargs of
              Inr response \<Rightarrow> (Inr response, tr2)
            | Inl e \<Rightarrow>
                if attempt = retry_count - 1 then (Inl (Some e), tr2)
                else attempts ad llm_provider messages kwargs retry_count retry_delay
                       (attempt + 1) (Some e) tr2)
      else (Inl last_error, tr))"
  by pat_completeness auto
termination
  by (relation "measure (\<lambda>(ad, p, ms, kw, rc, d, a, e, tr). nat (rc - a))") auto

declare attempts.simps [simp del]

definition select_provider :: "LLMGateway \<Rightarrow> string option \<Rightarrow> LLMProvider option" where
  \<comment> \<open>lines 405 to 410 of \<^verbatim>\<open>generate\<close>: the provider the call goes to; \<open>None\<close> where the
      source raises \<^verbatim>\<open>ValueError\<close>. \<^verbatim>\<open>provider and provider in self.providers\<close> is false
      for \<^verbatim>\<open>None\<close>, for the empty string and for a name that is not a key\<close>
  "select_provider gw provider =
     (case provider of
        None \<Rightarrow> default_provider gw
      | Some p \<Rightarrow>
          if p \<noteq> [] \<and> providers gw p \<noteq> None then providers gw p
          else default_provider gw)"

definition effective_retry_count :: "LLMGateway \<Rightarrow> int option \<Rightarrow> int" where
  \<comment> \<open>lines 413 and 414: the argument, else \<^verbatim>\<open>self.config.get("retry_count", 3)\<close>\<close>
  "effective_retry_count gw retry_count =
     (case retry_count of
        None \<Rightarrow> (case cfg_retry_count (gateway_config gw) of None \<Rightarrow> 3 | Some n \<Rightarrow> n)
      | Some n \<Rightarrow> n)"

definition effective_retry_delay :: "LLMGateway \<Rightarrow> real" where
  \<comment> \<open>line 416: \<^verbatim>\<open>self.config.get("retry_delay", 1.0)\<close>\<close>
  "effective_retry_delay gw =
     (case cfg_retry_delay (gateway_config gw) of None \<Rightarrow> 1 | Some d \<Rightarrow> d)"

definition generate ::
  "adapters \<Rightarrow> LLMGateway \<Rightarrow> LLMMessage list \<Rightarrow> string option \<Rightarrow> int option \<Rightarrow> pydict \<Rightarrow>
   trace \<Rightarrow> (exn + LLMResponse) \<times> trace" where
  \<comment> \<open>\<^verbatim>\<open>LLMGateway.generate(messages, provider, retry_count, **kwargs)\<close>\<close>
  "generate ad gw messages provider retry_count kwargs tr =
     (case select_provider gw provider of
        None \<Rightarrow> (Inl (ValueError no_provider_available), tr)
      | Some llm_provider \<Rightarrow>
          (let rc = effective_retry_count gw retry_count;
               retry_delay = effective_retry_delay gw
           in case attempts ad llm_provider messages kwargs rc retry_delay 0 None tr of
                (Inr response, tr') \<Rightarrow> (Inr response, tr')
              | (Inl last_error, tr') \<Rightarrow>
                  (Inl (Exception (failure_message rc last_error)), tr')))"

definition generate_simple ::
  "adapters \<Rightarrow> LLMGateway \<Rightarrow> string \<Rightarrow> string \<Rightarrow> string option \<Rightarrow> int option \<Rightarrow> pydict \<Rightarrow>
   trace \<Rightarrow> (exn + string) \<times> trace" where
  \<comment> \<open>\<^verbatim>\<open>LLMGateway.generate_simple(system_prompt, user_message, provider, **kwargs)\<close>;
      \<open>retry_count\<close> is the keyword of that name among the options, which the call
      \<^verbatim>\<open>self.generate(messages, provider, **kwargs)\<close> binds to the parameter of
      \<^verbatim>\<open>generate\<close>\<close>
  "generate_simple ad gw system_prompt user_message provider retry_count kwargs tr =
     (let messages0 = (if system_prompt \<noteq> []
                       then [\<lparr>role = ''system'', content = system_prompt\<rparr>] else []);
          messages = messages0 @ [\<lparr>role = ''user'', content = user_message\<rparr>]
      in case generate ad gw messages provider retry_count kwargs tr of
           (Inr response, tr') \<Rightarrow> (Inr (r_content response), tr')
         | (Inl e, tr') \<Rightarrow> (Inl e, tr'))"

text \<open>
  \<^verbatim>\<open>get_provider_info\<close> calls Python's \<^verbatim>\<open>str.lower\<close>, which follows the lower-case
  mapping of Unicode (it maps the Kelvin sign U+212A to \<^verbatim>\<open>k\<close>, for one). That built-in is
  the parameter \<open>str_lower\<close>, a function on encoded text; on ASCII text it is
  \<^const>\<open>ascii_lower\<close>.
\<close>

definition get_provider_info :: "(string \<Rightarrow> string) \<Rightarrow> LLMGateway \<Rightarrow> string \<Rightarrow> pydict" where
  \<comment> \<open>\<^verbatim>\<open>LLMGateway.get_provider_info\<close>\<close>
  "get_provider_info str_lower gw name =
     (case providers gw name of
        None \<Rightarrow> []
      | Some provider \<Rightarrow>
          [(''name'', PStr (provider_name provider)),
           (''config'',
            PDict (map (\<lambda>(k, v). (k, if str_contains ''key'' (str_lower k) then PStr ''***'' else v))
                     (config provider)))])"

section \<open>The Claude adapter's request\<close>

definition ClaudeProvider_validate_config :: "pydict \<Rightarrow> bool" where
  "ClaudeProvider_validate_config cfg =
     list_all (dict_has cfg) [''api_key'', ''api_base'', ''model'']"

definition claude_config_incomplete :: string where
  \<comment> \<open>the message of the \<^verbatim>\<open>ValueError\<close> of line 134\<close>
  "claude_config_incomplete =
     ''Claude'' @
     [CHR 0xE9, CHR 0x85, CHR 0x8D, CHR 0xE7, CHR 0xBD, CHR 0xAE, CHR 0xE4, CHR 0xB8,
      CHR 0x8D, CHR 0xE5, CHR 0xAE, CHR 0x8C, CHR 0xE6, CHR 0x95, CHR 0xB4]"

definition split_system ::
  "LLMMessage list \<Rightarrow> string option \<times> pyval list" where
  \<comment> \<open>the loop of lines 143 to 150: \<^verbatim>\<open>(system_message, conversation_messages)\<close>\<close>
  "split_system messages =
     fold (\<lambda>msg (system_message, conversation_messages).
             if role msg = ''system'' then (Some (content msg), conversation_messages)
             else (system_message, conversation_messages @ [to_dict msg]))
       messages (None, [])"

definition ClaudeProvider_payload :: "pydict \<Rightarrow> LLMMessage list \<Rightarrow> pydict \<Rightarrow> exn + pydict" where
  \<comment> \<open>\<^verbatim>\<open>ClaudeProvider.generate\<close> up to the request: the JSON body that is posted\<close>
  "ClaudeProvider_payload cfg messages kwargs =
     (if \<not> ClaudeProvider_validate_config cfg then Inl (ValueError claude_config_incomplete)
      else
        (let (system_message, conversation_messages) = split_system messages;
             payload = dict_merge
               [(''model'', dict_get cfg ''model'' (PStr ''claude-3-haiku-20240307'')),
                (''max_tokens'', dict_get cfg ''max_tokens'' (PInt 2000)),
                (''messages'', PList conversation_messages)]
               kwargs
         in case system_message of
              None \<Rightarrow> Inr payload
            | Some s \<Rightarrow>
                if s \<noteq> [] then Inr (AList.update ''system'' (PStr s) payload)
                else Inr payload))"

section \<open>Vocabulary of the theorems\<close>

text \<open>
  The events of the attempt with loop index \<open>k\<close> (the \<open>k + 1\<close>-th attempt): the backoff
  sleep of \<^verbatim>\<open>retry_delay * attempt\<close> when it is not the first one, then the adapter call.
  \<open>slept\<close> is the total duration of the sleeps of a trace.
\<close>

definition attempt_events :: "LLMProvider \<Rightarrow> LLMMessage list \<Rightarrow> pydict \<Rightarrow> real \<Rightarrow> nat \<Rightarrow> event list" where
  "attempt_events p ms kw d k = (if k > 0 then [Sleep (d * of_nat k)] else []) @ [Call p ms kw]"

primrec slept :: "trace \<Rightarrow> real" where
  "slept [] = 0"
| "slept (ev # tr) = (case ev of Sleep d \<Rightarrow> d | Call p ms kw \<Rightarrow> 0) + slept tr"

section \<open>A gateway and three upstreams for the examples\<close>

text \<open>
  A gateway initialised in real mode with an OpenAI and a Claude provider, OpenAI being the
  default; the same configuration with the unregistered \<^verbatim>\<open>kimi\<close> as default; and three
  behaviours of the upstream: every call times out, every call answers, the first two calls
  time out.
\<close>

definition openai_config :: pydict where
  "openai_config = [(''api_key'', PStr ''sk-test''), (''api_base'', PStr ''https://api.openai.com/v1''), (''model'', PStr ''gpt-4'')]"

definition claude_config :: pydict where
  "claude_config = [(''api_key'', PStr ''sk-ant''), (''api_base'', PStr ''https://api.anthropic.com''), (''model'', PStr ''claude-3-haiku-20240307''), (''timeout'', PInt 30)]"

definition demo_config :: gateway_config where
  "demo_config = \<lparr>cfg_default_provider = Some ''openai'', cfg_retry_count = Some 3,
     cfg_retry_delay = Some (1 / 2), cfg_mock_llm = Some False,
     cfg_openai = Some openai_config, cfg_claude = Some claude_config, cfg_kimi = None\<rparr>"

definition demo_gateway :: LLMGateway where
  "demo_gateway = initialize (LLMGateway_init demo_config)"

definition kimi_default_gateway :: LLMGateway where
  "kimi_default_gateway = initialize (LLMGateway_init (demo_config\<lparr>cfg_default_provider := Some ''kimi''\<rparr>))"

definition hi :: "LLMMessage list" where
  "hi = [\<lparr>role = ''user'', content = ''hi''\<rparr>]"

definition hello :: LLMResponse where
  "hello = \<lparr>r_content = ''hello'', r_model = ''gpt-4'', r_provider = ''openai'', r_usage = Some [], r_metadata = Some [(''response_id'', PNone)]\<rparr>"

definition timeout :: exn where
  "timeout = Exception ''timeout''"

definition upstream_down :: adapters where
  "upstream_down p n ms kw = Inl timeout"

definition upstream_up :: adapters where
  "upstream_up p n ms kw = Inr hello"

definition upstream_flaky :: adapters where
  "upstream_flaky p n ms kw = (if n < 2 then Inl timeout else Inr hello)"

text \<open>
  The same gateway with an OpenAI configuration whose keys are written in mixed case.
\<close>

definition mixed_case_config :: pydict where
  "mixed_case_config =
     [(''API_KEY'', PStr ''sk-test''), (''Api_Base'', PStr ''https://api.openai.com/v1''),
      (''model'', PStr ''gpt-4''), (''KeyFile'', PStr ''/etc/puqee/openai.pem'')]"

definition mixed_case_gateway :: LLMGateway where
  "mixed_case_gateway = initialize (LLMGateway_init (demo_config\<lparr>cfg_openai := Some mixed_case_config\<rparr>))"

definition brief :: "LLMMessage list" where
  "brief = [\<lparr>role = ''system'', content = ''Be kind.''\<rparr>, \<lparr>role = ''user'', content = ''hi''\<rparr>,
            \<lparr>role = ''system'', content = ''Be brief.''\<rparr>]"

section \<open>The retry loop\<close>

lemma ncalls_append: "ncalls (a @ b) = ncalls a + ncalls b"
  by (simp add: ncalls_def)
lemma ncalls_attempt_events: "ncalls (attempt_events p ms kw d k) = 1"
  by (simp add: ncalls_def attempt_events_def)
lemma ncalls_concat_attempt_events: "ncalls (concat (map (attempt_events p ms kw d) ks)) = length ks"
  by (induction ks) (simp_all add: ncalls_append ncalls_attempt_events, simp add: ncalls_def)
lemma slept_append: "slept (a @ b) = slept a + slept b"
  by (induction a) simp_all

lemma attempts_step_fail:
  assumes "int a < rc - 1" "ad p (ncalls tr) ms kw = Inl e"
  shows "attempts ad p ms kw rc d (int a) le tr = attempts ad p ms kw rc d (int (Suc a)) (Some e) (tr @ attempt_events p ms kw d a)"
  using assms
  apply (subst attempts.simps)
  apply (simp add: attempt_events_def ncalls_append ncalls_def Let_def add.commute)
  done

lemma attempts_last_fail:
  assumes "int a = rc - 1" "ad p (ncalls tr) ms kw = Inl e"
  shows "attempts ad p ms kw rc d (int a) le tr = (Inl (Some e), tr @ attempt_events p ms kw d a)"
  using assms
  apply (subst attempts.simps)
  apply (simp add: attempt_events_def ncalls_append ncalls_def Let_def)
  done

lemma attempts_success:
  assumes "int a < rc" "ad p (ncalls tr) ms kw = Inr r"
  shows "attempts ad p ms kw rc d (int a) le tr = (Inr r, tr @ attempt_events p ms kw d a)"
  using assms
  apply (subst attempts.simps)
  apply (simp add: attempt_events_def ncalls_append ncalls_def Let_def)
  done

lemma attempts_exhausted:
  assumes "rc \<le> a"
  shows "attempts ad p ms kw rc d a le tr = (Inl le, tr)"
  using assms by (subst attempts.simps) simp

lemma attempts_failures:
  "\<lbrakk>\<forall>k<n. isl (ad p (ncalls tr + k) ms kw); int a + int n < rc\<rbrakk> \<Longrightarrow>
   attempts ad p ms kw rc d (int a) le tr =
   attempts ad p ms kw rc d (int (a + n))
     (if n = 0 then le else Some (projl (ad p (ncalls tr + n - 1) ms kw)))
     (tr @ concat (map (attempt_events p ms kw d) [a..<a + n]))"
proof (induction n arbitrary: a le tr)
  case 0
  then show ?case by simp
next
  case (Suc n)
  from Suc.prems(1) have f0: "isl (ad p (ncalls tr) ms kw)" by (metis add.right_neutral zero_less_Suc)
  then obtain e where e: "ad p (ncalls tr) ms kw = Inl e" by (cases "ad p (ncalls tr) ms kw") auto
  let ?tr2 = "tr @ attempt_events p ms kw d a"
  have nc: "ncalls ?tr2 = Suc (ncalls tr)" by (simp add: ncalls_append ncalls_attempt_events)
  have step: "attempts ad p ms kw rc d (int a) le tr = attempts ad p ms kw rc d (int (Suc a)) (Some e) ?tr2"
    using Suc.prems(2) e by (intro attempts_step_fail) auto
  have h: "\<forall>k<n. isl (ad p (ncalls ?tr2 + k) ms kw)"
    using Suc.prems(1) nc by auto
  have "attempts ad p ms kw rc d (int (Suc a)) (Some e) ?tr2 =
     attempts ad p ms kw rc d (int (Suc a + n))
     (if n = 0 then Some e else Some (projl (ad p (ncalls ?tr2 + n - 1) ms kw)))
     (?tr2 @ concat (map (attempt_events p ms kw d) [Suc a..<Suc a + n]))"
    using Suc.IH[OF h, of "Suc a" "Some e"] Suc.prems(2) by simp
  moreover have "[a..<a + Suc n] = a # [Suc a..<Suc a + n]" by (simp add: upt_rec)
  ultimately show ?case using step e nc by (cases n) (auto)
qed

lemma attempts_all_fail:
  assumes "1 \<le> rc" and "\<forall>k<nat rc. isl (ad p (ncalls tr + k) ms kw)"
  shows "\<exists>e. ad p (ncalls tr + nat rc - 1) ms kw = Inl e \<and>
     attempts ad p ms kw rc d 0 None tr =
       (Inl (Some e), tr @ concat (map (attempt_events p ms kw d) [0..<nat rc]))"
proof -
  define n where "n = nat rc - 1"
  have rc: "rc = int (Suc n)" using assms(1) by (simp add: n_def)
  have pre: "\<forall>k<n. isl (ad p (ncalls tr + k) ms kw)" using assms(2) rc by simp
  let ?tr = "tr @ concat (map (attempt_events p ms kw d) [0..<n])"
  have nc: "ncalls ?tr = ncalls tr + n" by (simp add: ncalls_append ncalls_concat_attempt_events)
  have "isl (ad p (ncalls tr + n) ms kw)" using assms(2) rc by simp
  then obtain e where e: "ad p (ncalls ?tr) ms kw = Inl e" unfolding nc by (cases "ad p (ncalls tr + n) ms kw") auto
  have "attempts ad p ms kw rc d (int 0) None tr = attempts ad p ms kw rc d (int (0 + n))
     (if n = 0 then None else Some (projl (ad p (ncalls tr + n - 1) ms kw))) (tr @ concat (map (attempt_events p ms kw d) [0..<0 + n]))"
    by (rule attempts_failures) (use pre rc in auto)
  also have "\<dots> = (Inl (Some e), ?tr @ attempt_events p ms kw d n)"
    using attempts_last_fail[of n rc ad p ?tr ms kw e d] e rc by simp
  finally have "attempts ad p ms kw rc d 0 None tr = (Inl (Some e), tr @ concat (map (attempt_events p ms kw d) [0..<Suc n]))"
    by simp
  moreover have nrc: "nat rc = Suc n" using rc by simp
  moreover have "ad p (ncalls tr + nat rc - 1) ms kw = Inl e" using e nc unfolding nrc by simp
  ultimately show ?thesis by auto
qed

lemma attempts_succeed_at:
  assumes "1 \<le> N" "int N \<le> rc" and "\<forall>k<N - 1. isl (ad p (ncalls tr + k) ms kw)"
    and "ad p (ncalls tr + (N - 1)) ms kw = Inr r"
  shows "attempts ad p ms kw rc d 0 None tr =
       (Inr r, tr @ concat (map (attempt_events p ms kw d) [0..<N]))"
proof -
  define n where "n = N - 1"
  have N: "N = Suc n" using assms(1) by (simp add: n_def)
  let ?tr = "tr @ concat (map (attempt_events p ms kw d) [0..<n])"
  have nc: "ncalls ?tr = ncalls tr + n" by (simp add: ncalls_append ncalls_concat_attempt_events)
  have "attempts ad p ms kw rc d (int 0) None tr = attempts ad p ms kw rc d (int (0 + n))
     (if n = 0 then None else Some (projl (ad p (ncalls tr + n - 1) ms kw))) (tr @ concat (map (attempt_events p ms kw d) [0..<0 + n]))"
    by (rule attempts_failures) (use assms N in auto)
  also have "\<dots> = (Inr r, ?tr @ attempt_events p ms kw d n)"
    using attempts_success[of n rc ad p ?tr ms kw r d] assms N nc by simp
  finally show ?thesis using N by simp
qed

lemma attempts_trace:
  "\<exists>new. snd (attempts ad p ms kw rc d a le tr) = tr @ new \<and>
     (\<forall>ev\<in>set new. is_call ev \<longrightarrow> ev = Call p ms kw)"
proof (induction ad p ms kw rc d a le tr rule: attempts.induct)
  case (1 ad p ms kw rc d a le tr)
  show ?case
  proof (cases "a < rc")
    case False
    then show ?thesis by (subst attempts.simps) simp
  next
    case True
    let ?tr1 = "if a > 0 then tr @ [Sleep (d * of_int a)] else tr"
    let ?tr2 = "?tr1 @ [Call p ms kw]"
    show ?thesis
    proof (cases "ad p (ncalls ?tr1) ms kw")
      case (Inr r)
      then show ?thesis using True by (subst attempts.simps) (simp add: Let_def)
    next
      case (Inl e)
      show ?thesis
      proof (cases "a = rc - 1")
        case True
        then show ?thesis using Inl \<open>a < rc\<close> by (subst attempts.simps) (simp add: Let_def)
      next
        case False
        from "1.IH"[OF \<open>a < rc\<close> refl refl Inl False]
        obtain new where new: "snd (attempts ad p ms kw rc d (a + 1) (Some e) ?tr2) = ?tr2 @ new"
          "\<forall>ev\<in>set new. is_call ev \<longrightarrow> ev = Call p ms kw" by blast
        have "attempts ad p ms kw rc d a le tr = attempts ad p ms kw rc d (a + 1) (Some e) ?tr2"
          using Inl False \<open>a < rc\<close> by (subst attempts.simps) (simp add: Let_def)
        then show ?thesis using new
          by (cases "a > 0") auto
      qed
    qed
  qed
qed


lemma generate_trace:
  "\<exists>new. snd (generate ad gw ms provider retry_count kw tr) = tr @ new \<and>
     (\<forall>ev\<in>set new. is_call ev \<longrightarrow> (\<exists>p. select_provider gw provider = Some p \<and> ev = Call p ms kw))"
proof (cases "select_provider gw provider")
  case None
  then show ?thesis by (simp add: generate_def)
next
  case (Some p)
  obtain new where new: "snd (attempts ad p ms kw (effective_retry_count gw retry_count) (effective_retry_delay gw) 0 None tr) = tr @ new"
    "\<forall>ev\<in>set new. is_call ev \<longrightarrow> ev = Call p ms kw"
    using attempts_trace by blast
  have "snd (generate ad gw ms provider retry_count kw tr) =
        snd (attempts ad p ms kw (effective_retry_count gw retry_count) (effective_retry_delay gw) 0 None tr)"
    using Some by (simp add: generate_def Let_def split: prod.splits sum.splits)
  then show ?thesis using new Some by auto
qed

section \<open>The example gateways evaluated\<close>

lemma demo_configs_nonempty: "openai_config \<noteq> []" "claude_config \<noteq> []"
  by (simp_all add: openai_config_def claude_config_def)

lemma demo_gateway_simps:
  "providers demo_gateway = [''openai'' \<mapsto> OpenAIProvider openai_config, ''claude'' \<mapsto> ClaudeProvider claude_config]"
  "default_provider demo_gateway = Some (OpenAIProvider openai_config)"
  "gateway_config demo_gateway = demo_config"
  by (simp_all add: demo_gateway_def initialize_def LLMGateway_init_def register_providers_def
      demo_config_def default_provider_name_def Let_def demo_configs_nonempty)

lemma kimi_default_gateway_simps:
  "providers kimi_default_gateway = [''openai'' \<mapsto> OpenAIProvider openai_config, ''claude'' \<mapsto> ClaudeProvider claude_config]"
  "default_provider kimi_default_gateway = None"
  "gateway_config kimi_default_gateway = demo_config\<lparr>cfg_default_provider := Some ''kimi''\<rparr>"
  by (simp_all add: kimi_default_gateway_def initialize_def LLMGateway_init_def register_providers_def
      demo_config_def default_provider_name_def Let_def demo_configs_nonempty)

lemma demo_retry: "effective_retry_count demo_gateway None = 3" "effective_retry_delay demo_gateway = 1 / 2"
  by (simp_all add: effective_retry_count_def effective_retry_delay_def demo_gateway_simps demo_config_def)

lemma demo_select:
  "select_provider demo_gateway None = Some (OpenAIProvider openai_config)"
  "select_provider demo_gateway (Some ''claude'') = Some (ClaudeProvider claude_config)"
  "select_provider demo_gateway (Some ''openai'') = Some (OpenAIProvider openai_config)"
  "select_provider demo_gateway (Some ''unknown'') = Some (OpenAIProvider openai_config)"
  by (simp_all add: select_provider_def demo_gateway_simps)

lemma kimi_default_select: "select_provider kimi_default_gateway None = None"
  "select_provider kimi_default_gateway (Some ''unknown'') = None"
  by (simp_all add: select_provider_def kimi_default_gateway_simps)

lemma mixed_case_gateway_providers:
  "providers mixed_case_gateway ''openai'' = Some (OpenAIProvider mixed_case_config)"
  "providers mixed_case_gateway ''kimi'' = None"
  by (simp_all add: mixed_case_gateway_def initialize_def LLMGateway_init_def register_providers_def
      demo_config_def default_provider_name_def Let_def mixed_case_config_def claude_config_def)

lemma generate_down:
  assumes "select_provider demo_gateway provider = Some p"
  shows "generate upstream_down demo_gateway ms provider None [] [] =
     (Inl (Exception (failure_message 3 (Some timeout))),
      [Call p ms [], Sleep (1 / 2), Call p ms [], Sleep 1, Call p ms []])"
proof -
  have three: "[0..<3] = [0, 1, 2]" by (simp add: upt_rec)
  from attempts_all_fail[of 3 upstream_down p "[]" ms "[]" "1 / 2"]
  show ?thesis using assms
    by (simp add: generate_def demo_retry upstream_down_def three attempt_events_def)
qed

lemma generate_up:
  assumes "select_provider demo_gateway provider = Some p"
  shows "generate upstream_up demo_gateway ms provider None kw [] = (Inr hello, [Call p ms kw])"
  using attempts_succeed_at[of 1 3 upstream_up p "[]" ms kw hello "1 / 2"] assms
  by (simp add: generate_def demo_retry upstream_up_def attempt_events_def)

section \<open>Strings and dictionaries\<close>

lemma startswith_iff: "startswith s sub \<longleftrightarrow> (\<exists>suf. s = sub @ suf)"
  by (induction sub arbitrary: s) (auto split: list.splits)

lemma str_contains_iff: "str_contains sub s \<longleftrightarrow> (\<exists>pre suf. s = pre @ sub @ suf)"
proof (induction s)
  case Nil
  then show ?case by auto
next
  case (Cons c cs)
  show ?case
  proof
    assume "str_contains sub (c # cs)"
    then consider "startswith (c # cs) sub" | "str_contains sub cs" by auto
    then show "\<exists>pre suf. c # cs = pre @ sub @ suf"
    proof cases
      case 1
      then obtain suf where "c # cs = sub @ suf" using startswith_iff by blast
      then have "c # cs = [] @ sub @ suf" by simp
      then show ?thesis by blast
    next
      case 2
      then obtain pre suf where "cs = pre @ sub @ suf" using Cons.IH by blast
      then have "c # cs = (c # pre) @ sub @ suf" by simp
      then show ?thesis by blast
    qed
  next
    assume "\<exists>pre suf. c # cs = pre @ sub @ suf"
    then obtain pre suf where ps: "c # cs = pre @ sub @ suf" by blast
    show "str_contains sub (c # cs)"
    proof (cases pre)
      case Nil
      then have "startswith (c # cs) sub" using ps startswith_iff by auto
      then show ?thesis by simp
    next
      case (Cons x xs)
      then have "cs = xs @ sub @ suf" using ps by simp
      then have "str_contains sub cs" using Cons.IH by blast
      then show ?thesis by simp
    qed
  qed
qed

lemma ascii_lower_char_k: "ascii_lower_char a = CHR ''k'' \<longleftrightarrow> a = CHR ''k'' \<or> a = CHR ''K''"
  by (simp add: ascii_lower_char_def)

lemma ascii_lower_char_e: "ascii_lower_char a = CHR ''e'' \<longleftrightarrow> a = CHR ''e'' \<or> a = CHR ''E''"
  by (simp add: ascii_lower_char_def)

lemma ascii_lower_char_y: "ascii_lower_char a = CHR ''y'' \<longleftrightarrow> a = CHR ''y'' \<or> a = CHR ''Y''"
  by (simp add: ascii_lower_char_def)

lemma map_eq_three:
  "(\<exists>pre suf. map f k = pre @ [x, y, z] @ suf) \<longleftrightarrow>
   (\<exists>pre a b c suf. k = pre @ [a, b, c] @ suf \<and> f a = x \<and> f b = y \<and> f c = z)"
proof
  assume "\<exists>pre suf. map f k = pre @ [x, y, z] @ suf"
  then obtain pre suf where "map f k = pre @ ([x, y, z] @ suf)" by blast
  then have "\<exists>us vs. k = us @ vs \<and> pre = map f us \<and> [x, y, z] @ suf = map f vs"
    by (simp only: map_eq_append_conv)
  then obtain k1 k2 where k: "k = k1 @ k2" and m2: "map f k2 = [x, y, z] @ suf"
    by metis
  from m2 have "\<exists>us vs. k2 = us @ vs \<and> [x, y, z] = map f us \<and> suf = map f vs"
    by (simp only: map_eq_append_conv)
  then obtain k3 k4 where k2: "k2 = k3 @ k4" and k3: "map f k3 = [x, y, z]"
    by metis
  from k3 obtain a b c where "k3 = [a, b, c]" "f a = x" "f b = y" "f c = z"
    by (auto simp: map_eq_Cons_conv)
  with k k2 have "k = k1 @ [a, b, c] @ k4 \<and> f a = x \<and> f b = y \<and> f c = z"
    by simp
  then show "\<exists>pre a b c suf. k = pre @ [a, b, c] @ suf \<and> f a = x \<and> f b = y \<and> f c = z"
    by blast
next
  assume "\<exists>pre a b c suf. k = pre @ [a, b, c] @ suf \<and> f a = x \<and> f b = y \<and> f c = z"
  then obtain pre a b c suf where "k = pre @ [a, b, c] @ suf" "f a = x" "f b = y" "f c = z" by blast
  then have "map f k = map f pre @ [x, y, z] @ map f suf" by simp
  then show "\<exists>pre suf. map f k = pre @ [x, y, z] @ suf" by blast
qed

lemma ascii_lower_contains_key:
  "(\<exists>pre suf. ascii_lower k = pre @ ''key'' @ suf) \<longleftrightarrow>
   (\<exists>pre a b c suf. k = pre @ [a, b, c] @ suf \<and>
      (a = CHR ''k'' \<or> a = CHR ''K'') \<and> (b = CHR ''e'' \<or> b = CHR ''E'') \<and>
      (c = CHR ''y'' \<or> c = CHR ''Y''))"
  unfolding ascii_lower_def map_eq_three ascii_lower_char_k ascii_lower_char_e ascii_lower_char_y ..

lemma fold_split_system:
  "fold (\<lambda>msg (system_message, conversation_messages).
             if role msg = ''system'' then (Some (content msg), conversation_messages)
             else (system_message, conversation_messages @ [to_dict msg])) ms (s, conv) =
   ((case filter (\<lambda>m. role m = ''system'') ms of [] \<Rightarrow> s | ss \<Rightarrow> Some (content (last ss))),
    conv @ map to_dict (filter (\<lambda>m. role m \<noteq> ''system'') ms))"
  by (induction ms arbitrary: s conv) (auto split: list.splits)

lemma split_system_eq:
  "split_system ms =
   ((case filter (\<lambda>m. role m = ''system'') ms of [] \<Rightarrow> None | ss \<Rightarrow> Some (content (last ss))),
    map to_dict (filter (\<lambda>m. role m \<noteq> ''system'') ms))"
  unfolding split_system_def fold_split_system by simp

lemma map_of_dict_merge:
  "map_of kwargs k = None \<Longrightarrow> map_of (dict_merge d kwargs) k = map_of d k"
  unfolding dict_merge_def
proof (induction kwargs arbitrary: d)
  case Nil
  then show ?case by simp
next
  case (Cons kv kwargs)
  obtain a v where kv: "kv = (a, v)" by (cases kv)
  with Cons.prems have "a \<noteq> k" "map_of kwargs k = None" by (auto split: if_splits)
  then show ?case using Cons.IH[of "AList.update a v d"] kv by (simp add: update_conv')
qed

section \<open>Provider selection\<close>

text \<open>
  C1 (as amended). The source selects the provider with
  \<^verbatim>\<open>if provider and provider in self.providers: ... elif self.default_provider: ...\<close>.
  So an explicit name that is not a key of the provider mapping is not an error by itself:
  the call behaves exactly as the same call without a provider name. It goes to the default
  provider when one is set; when none is set it raises the \<^verbatim>\<open>ValueError\<close> of line 410 and
  the trace is unchanged, so no adapter is awaited.
\<close>

theorem generate_unknown_provider:
  assumes "providers gw name = None"
  shows "select_provider gw (Some name) = default_provider gw \<and>
     generate ad gw messages (Some name) retry_count kwargs tr =
       generate ad gw messages None retry_count kwargs tr \<and>
     (default_provider gw = None \<longrightarrow>
        generate ad gw messages (Some name) retry_count kwargs tr =
          (Inl (ValueError no_provider_available), tr))"
  using assms by (simp add: generate_def select_provider_def)

theorem generate_unknown_provider_witness:
  "providers demo_gateway ''unknown'' = None \<and>
   select_provider demo_gateway (Some ''unknown'') = default_provider demo_gateway \<and>
   generate upstream_up demo_gateway hi (Some ''unknown'') None [] [] =
     generate upstream_up demo_gateway hi None None [] [] \<and>
   providers kimi_default_gateway ''unknown'' = None \<and>
   default_provider kimi_default_gateway = None \<and>
   generate upstream_up kimi_default_gateway hi (Some ''unknown'') None [] [] =
     (Inl (ValueError no_provider_available), [])"
  using generate_unknown_provider[of demo_gateway "''unknown''" upstream_up hi None "[]" "[]"]
    generate_unknown_provider[of kimi_default_gateway "''unknown''" upstream_up hi None "[]" "[]"]
  by (auto simp: demo_gateway_simps kimi_default_gateway_simps)

text \<open>
  C1 as stated fails: with \<^verbatim>\<open>openai\<close> as default, a call that names the unregistered
  provider \<^verbatim>\<open>unknown\<close> raises nothing; it awaits the OpenAI adapter and returns its
  response.
\<close>

theorem unknown_provider_falls_back:
  "providers demo_gateway ''unknown'' = None \<and>
   generate upstream_up demo_gateway hi (Some ''unknown'') None [] [] =
     (Inr hello, [Call (OpenAIProvider openai_config) hi []])"
  by (simp add: demo_gateway_simps generate_up demo_select)

text \<open>
  C7 (as amended). A call without a provider name on a gateway whose default provider is not
  set raises at once: the result is the \<^verbatim>\<open>ValueError\<close> of line 410 (the source has no
  class named ConfigurationError) and the trace is unchanged, so there is no attempt, no
  sleep, and no other registered provider is called. The default is not set after
  \<^verbatim>\<open>__init__\<close>, and it stays so when \<^verbatim>\<open>initialize\<close> finds that the configured default
  name is not a key of the provider mapping.
\<close>

theorem generate_without_default:
  assumes "default_provider gw = None \<or>
     (gw = initialize (LLMGateway_init cfg) \<and> providers gw (default_provider_name cfg) = None)"
  shows "generate ad gw messages None retry_count kwargs tr =
           (Inl (ValueError no_provider_available), tr)"
proof -
  have "default_provider gw = None"
    using assms
    by (auto simp: initialize_def Let_def LLMGateway_init_def register_providers_def
        split: option.splits if_splits)
  then show ?thesis by (simp add: generate_def select_provider_def)
qed

theorem generate_without_default_witness:
  "kimi_default_gateway = initialize (LLMGateway_init (demo_config\<lparr>cfg_default_provider := Some ''kimi''\<rparr>)) \<and>
   providers kimi_default_gateway (default_provider_name (demo_config\<lparr>cfg_default_provider := Some ''kimi''\<rparr>)) = None \<and>
   providers kimi_default_gateway ''openai'' = Some (OpenAIProvider openai_config) \<and>
   generate upstream_up kimi_default_gateway hi None None [] [] =
     (Inl (ValueError no_provider_available), []) \<and>
   default_provider (LLMGateway_init demo_config) = None \<and>
   generate upstream_up (LLMGateway_init demo_config) hi None None [] [] =
     (Inl (ValueError no_provider_available), [])"
proof -
  let ?cfg = "demo_config\<lparr>cfg_default_provider := Some ''kimi''\<rparr>"
  have h1: "kimi_default_gateway = initialize (LLMGateway_init ?cfg)"
    by (simp add: kimi_default_gateway_def)
  have h2: "providers kimi_default_gateway (default_provider_name ?cfg) = None"
    by (simp add: kimi_default_gateway_simps default_provider_name_def)
  have h3: "default_provider (LLMGateway_init demo_config) = None"
    by (simp add: LLMGateway_init_def)
  have h4: "providers kimi_default_gateway ''openai'' = Some (OpenAIProvider openai_config)"
    by (simp add: kimi_default_gateway_simps)
  show ?thesis
    using generate_without_default[of kimi_default_gateway ?cfg upstream_up hi None "[]" "[]"]
      generate_without_default[of "LLMGateway_init demo_config" ?cfg upstream_up hi None "[]" "[]"]
      h1 h2 h3 h4
    by blast
qed

text \<open>
  C7 as stated names the wrong exception: with the unregistered \<^verbatim>\<open>kimi\<close> as default
  and two other providers registered, the call raises a \<^verbatim>\<open>ValueError\<close>.
\<close>

theorem no_default_raises_value_error:
  "default_provider kimi_default_gateway = None \<and>
   providers kimi_default_gateway ''openai'' = Some (OpenAIProvider openai_config) \<and>
   generate upstream_up kimi_default_gateway hi None None [] [] =
     (Inl (Exn ''ValueError'' no_provider_available), []) \<and>
   exn_class (Exn ''ValueError'' no_provider_available) \<noteq> ''ConfigurationError''"
  by (simp add: kimi_default_gateway_simps generate_def kimi_default_select)

section \<open>The message sequence\<close>




text \<open>
  C6. \<^verbatim>\<open>generate_simple\<close> is \<^verbatim>\<open>generate\<close> on the sequence made of the system message, when
  \<^verbatim>\<open>system_prompt\<close> is not empty, and of one user message; its result is the content of the
  response, or the exception, of that call. Every adapter invocation the call adds to the
  trace received exactly this sequence.
\<close>

theorem generate_simple_messages:
  "(let messages = (if system_prompt = [] then [\<lparr>role = ''user'', content = user_message\<rparr>]
                    else [\<lparr>role = ''system'', content = system_prompt\<rparr>,
                          \<lparr>role = ''user'', content = user_message\<rparr>])
    in generate_simple ad gw system_prompt user_message provider retry_count kwargs tr =
         (case generate ad gw messages provider retry_count kwargs tr of
            (Inr response, tr') \<Rightarrow> (Inr (r_content response), tr')
          | (Inl e, tr') \<Rightarrow> (Inl e, tr')) \<and>
       (\<exists>new. snd (generate_simple ad gw system_prompt user_message provider retry_count kwargs tr) = tr @ new \<and>
          (\<forall>p ms kw. Call p ms kw \<in> set new \<longrightarrow> ms = messages)))"
proof -
  define messages where "messages = (if system_prompt = [] then [\<lparr>role = ''user'', content = user_message\<rparr>]
                    else [\<lparr>role = ''system'', content = system_prompt\<rparr>,
                          \<lparr>role = ''user'', content = user_message\<rparr>])"
  have eq: "generate_simple ad gw system_prompt user_message provider retry_count kwargs tr =
         (case generate ad gw messages provider retry_count kwargs tr of
            (Inr response, tr') \<Rightarrow> (Inr (r_content response), tr')
          | (Inl e, tr') \<Rightarrow> (Inl e, tr'))"
    by (simp add: generate_simple_def messages_def)
  have s: "snd (generate_simple ad gw system_prompt user_message provider retry_count kwargs tr) =
     snd (generate ad gw messages provider retry_count kwargs tr)"
    unfolding eq by (simp split: prod.splits sum.splits)
  obtain new where new: "snd (generate ad gw messages provider retry_count kwargs tr) = tr @ new"
     "\<forall>ev\<in>set new. is_call ev \<longrightarrow> (\<exists>p. select_provider gw provider = Some p \<and> ev = Call p messages kwargs)"
    using generate_trace by blast
  have "\<forall>p ms kw. Call p ms kw \<in> set new \<longrightarrow> ms = messages"
    using new(2) by fastforce
  with new(1) s eq show ?thesis unfolding messages_def[symmetric] Let_def by metis
qed

theorem generate_simple_messages_witness:
  "generate_simple upstream_up demo_gateway '''' ''hi'' None None [] [] =
     (Inr ''hello'', [Call (OpenAIProvider openai_config) [\<lparr>role = ''user'', content = ''hi''\<rparr>] []]) \<and>
   generate_simple upstream_up demo_gateway ''Be brief.'' ''hi'' None None [] [] =
     (Inr ''hello'', [Call (OpenAIProvider openai_config)
        [\<lparr>role = ''system'', content = ''Be brief.''\<rparr>, \<lparr>role = ''user'', content = ''hi''\<rparr>] []])"
  using generate_simple_messages[of "''''" "''hi''" upstream_up demo_gateway None None "[]" "[]"]
    generate_simple_messages[of "''Be brief.''" "''hi''" upstream_up demo_gateway None None "[]" "[]"]
  by (simp add: generate_simple_def generate_up demo_select hello_def Let_def)

section \<open>Retry and backoff\<close>

text \<open>
  C3. When the selected adapter fails at every invocation and the retry count in effect is 3,
  \<^verbatim>\<open>generate\<close> awaits the adapter exactly three times and then raises the exception of
  line 439, built from the count 3 and the error of the third attempt. It sleeps exactly
  twice: \<^verbatim>\<open>retry_delay * 1\<close> before the second attempt and \<^verbatim>\<open>retry_delay * 2\<close> before the
  third, so the total slept is their sum. The trace shows the order of the five events.
\<close>

theorem generate_three_failures:
  assumes "select_provider gw provider = Some p"
    and "effective_retry_count gw retry_count = 3"
    and "\<forall>n. isl (ad p n messages kwargs)"
  shows "\<exists>e. ad p (ncalls tr + 2) messages kwargs = Inl e \<and>
     generate ad gw messages provider retry_count kwargs tr =
       (Inl (Exception (failure_message 3 (Some e))),
        tr @ [Call p messages kwargs,
              Sleep (effective_retry_delay gw * 1), Call p messages kwargs,
              Sleep (effective_retry_delay gw * 2), Call p messages kwargs]) \<and>
     ncalls (snd (generate ad gw messages provider retry_count kwargs tr)) = ncalls tr + 3 \<and>
     slept (snd (generate ad gw messages provider retry_count kwargs tr)) =
       slept tr + (effective_retry_delay gw * 1 + effective_retry_delay gw * 2)"
proof -
  let ?d = "effective_retry_delay gw"
  have "\<forall>k<nat 3. isl (ad p (ncalls tr + k) messages kwargs)" using assms(3) by simp
  from attempts_all_fail[of 3 ad p tr messages kwargs ?d] this obtain e where
    e: "ad p (ncalls tr + nat 3 - 1) messages kwargs = Inl e"
    and a: "attempts ad p messages kwargs 3 ?d 0 None tr =
       (Inl (Some e), tr @ concat (map (attempt_events p messages kwargs ?d) [0..<nat 3]))"
    by auto
  have three: "[0..<nat 3] = [0, 1, 2]" by (simp add: upt_rec)
  have g: "generate ad gw messages provider retry_count kwargs tr =
       (Inl (Exception (failure_message 3 (Some e))),
        tr @ [Call p messages kwargs, Sleep (?d * 1), Call p messages kwargs,
              Sleep (?d * 2), Call p messages kwargs])"
    using a assms(1,2) unfolding three by (simp add: generate_def attempt_events_def)
  have e2: "ad p (ncalls tr + 2) messages kwargs = Inl e" using e by simp
  show ?thesis
    apply (rule exI[of _ e])
    apply (simp only: g e2 snd_conv)
    apply (simp add: ncalls_append slept_append)
    apply (simp add: ncalls_def)
    done
qed

theorem generate_three_failures_witness:
  "select_provider demo_gateway None = Some (OpenAIProvider openai_config) \<and>
   effective_retry_count demo_gateway None = 3 \<and>
   (\<forall>n. isl (upstream_down (OpenAIProvider openai_config) n hi [])) \<and>
   generate upstream_down demo_gateway hi None None [] [] =
     (Inl (Exception (failure_message 3 (Some timeout))),
      [Call (OpenAIProvider openai_config) hi [], Sleep (1 / 2),
       Call (OpenAIProvider openai_config) hi [], Sleep 1,
       Call (OpenAIProvider openai_config) hi []])"
  using generate_three_failures[of demo_gateway None "OpenAIProvider openai_config" None upstream_down hi "[]" "[]"]
  by (simp add: demo_select demo_retry upstream_down_def)

text \<open>
  C4. When the selected adapter fails at its first \<open>N - 1\<close> invocations and answers at the
  \<open>N\<close>-th, with \<open>1 \<le> N \<le> retry_count\<close>, \<^verbatim>\<open>generate\<close> returns that response; the events of
  the call are those of the attempts \<open>0, \<dots>, N - 1\<close> and no more, so the adapter is awaited
  exactly \<open>N\<close> times.
\<close>

theorem generate_succeeds_at_attempt:
  assumes "select_provider gw provider = Some p"
    and "1 \<le> N" and "int N \<le> effective_retry_count gw retry_count"
    and "\<forall>k<N - 1. isl (ad p (ncalls tr + k) messages kwargs)"
    and "ad p (ncalls tr + (N - 1)) messages kwargs = Inr response"
  shows "generate ad gw messages provider retry_count kwargs tr =
       (Inr response,
        tr @ concat (map (attempt_events p messages kwargs (effective_retry_delay gw)) [0..<N])) \<and>
     ncalls (snd (generate ad gw messages provider retry_count kwargs tr)) = ncalls tr + N"
proof -
  have g: "generate ad gw messages provider retry_count kwargs tr =
       (Inr response,
        tr @ concat (map (attempt_events p messages kwargs (effective_retry_delay gw)) [0..<N]))"
    using attempts_succeed_at[of N "effective_retry_count gw retry_count" ad p tr messages kwargs
        response "effective_retry_delay gw"] assms
    by (simp add: generate_def)
  show ?thesis
    by (simp only: g snd_conv) (simp add: ncalls_append ncalls_concat_attempt_events)
qed

theorem generate_succeeds_at_attempt_witness:
  "select_provider demo_gateway (Some ''claude'') = Some (ClaudeProvider claude_config) \<and>
   (1::nat) \<le> 3 \<and> int 3 \<le> effective_retry_count demo_gateway None \<and>
   isl (upstream_flaky (ClaudeProvider claude_config) (ncalls [] + 0) hi []) \<and>
   isl (upstream_flaky (ClaudeProvider claude_config) (ncalls [] + 1) hi []) \<and>
   upstream_flaky (ClaudeProvider claude_config) (ncalls [] + (3 - 1)) hi [] = Inr hello \<and>
   generate upstream_flaky demo_gateway hi (Some ''claude'') None [] [] =
     (Inr hello,
      [Call (ClaudeProvider claude_config) hi [], Sleep (1 / 2),
       Call (ClaudeProvider claude_config) hi [], Sleep 1,
       Call (ClaudeProvider claude_config) hi []]) \<and>
   ncalls (snd (generate upstream_flaky demo_gateway hi (Some ''claude'') None [] [])) = 3"
proof -
  have three: "[0..<3] = [0, 1, 2]" by (simp add: upt_rec)
  show ?thesis
  using generate_succeeds_at_attempt[of demo_gateway "Some ''claude''" "ClaudeProvider claude_config" 3 None
      upstream_flaky "[]" hi "[]" hello]
  by (simp add: demo_select demo_retry upstream_flaky_def ncalls_def three attempt_events_def)
qed

text \<open>
  C5 (as amended). When every attempt fails, with a retry count of at least 1, the exception
  raised is a plain \<^verbatim>\<open>Exception\<close>. Its only content is the message of line 439, a text made
  of the retry count and of the \<^verbatim>\<open>str()\<close> of the last adapter error; the provider is not
  part of it. Its class tells it from the \<^verbatim>\<open>ValueError\<close> raised when no provider is
  available.
\<close>

theorem generate_exhausted_error:
  assumes "select_provider gw provider = Some p"
    and "1 \<le> effective_retry_count gw retry_count"
    and "\<forall>k<nat (effective_retry_count gw retry_count). isl (ad p (ncalls tr + k) messages kwargs)"
  shows "\<exists>e. ad p (ncalls tr + nat (effective_retry_count gw retry_count) - 1) messages kwargs = Inl e \<and>
     fst (generate ad gw messages provider retry_count kwargs tr) =
       Inl (Exn ''Exception'' (failure_message (effective_retry_count gw retry_count) (Some e))) \<and>
     fst (generate ad gw messages provider retry_count kwargs tr) \<noteq>
       Inl (Exn ''ValueError'' no_provider_available)"
proof -
  let ?rc = "effective_retry_count gw retry_count"
  from attempts_all_fail[of ?rc ad p tr messages kwargs "effective_retry_delay gw"] assms(2,3)
  obtain e where e: "ad p (ncalls tr + nat ?rc - 1) messages kwargs = Inl e"
    and a: "attempts ad p messages kwargs ?rc (effective_retry_delay gw) 0 None tr =
       (Inl (Some e), tr @ concat (map (attempt_events p messages kwargs (effective_retry_delay gw)) [0..<nat ?rc]))"
    by auto
  have "fst (generate ad gw messages provider retry_count kwargs tr) =
       Inl (Exn ''Exception'' (failure_message ?rc (Some e)))"
    using a assms(1) by (simp add: generate_def Let_def)
  with e show ?thesis by auto
qed

theorem generate_exhausted_error_witness:
  "select_provider demo_gateway (Some ''claude'') = Some (ClaudeProvider claude_config) \<and>
   1 \<le> effective_retry_count demo_gateway (Some 2) \<and>
   isl (upstream_down (ClaudeProvider claude_config) (ncalls [] + 0) hi []) \<and>
   isl (upstream_down (ClaudeProvider claude_config) (ncalls [] + 1) hi []) \<and>
   fst (generate upstream_down demo_gateway hi (Some ''claude'') (Some 2) [] []) =
     Inl (Exn ''Exception'' (failure_message 2 (Some timeout)))"
  using generate_exhausted_error[of demo_gateway "Some ''claude''" "ClaudeProvider claude_config"
      "Some 2" upstream_down "[]" hi "[]"]
  by (simp add: demo_select effective_retry_count_def upstream_down_def less_Suc_eq numeral_2_eq_2)

text \<open>
  C5 as stated fails: two calls that go to two providers of different names, both failing
  with the same upstream error, raise the same exception value, so the provider name cannot
  be read from it.
\<close>

theorem exhausted_error_has_no_provider_name:
  "select_provider demo_gateway (Some ''openai'') = Some (OpenAIProvider openai_config) \<and>
   select_provider demo_gateway (Some ''claude'') = Some (ClaudeProvider claude_config) \<and>
   provider_name (OpenAIProvider openai_config) = ''openai'' \<and>
   provider_name (ClaudeProvider claude_config) = ''claude'' \<and>
   fst (generate upstream_down demo_gateway hi (Some ''openai'') None [] []) =
     Inl (Exn ''Exception'' (failure_message 3 (Some timeout))) \<and>
   fst (generate upstream_down demo_gateway hi (Some ''claude'') None [] []) =
     Inl (Exn ''Exception'' (failure_message 3 (Some timeout)))"
  by (simp add: demo_select generate_down OpenAIProvider_def ClaudeProvider_def)

text \<open>
  C10. With a provider selected and a retry count in effect of 0 or less, the loop body never
  runs: \<^verbatim>\<open>generate\<close> raises the exception of line 439 with \<^verbatim>\<open>last_error\<close> still
  \<^verbatim>\<open>None\<close>, and the trace is unchanged, so the adapter is never awaited and nothing is
  slept.
\<close>

theorem generate_no_attempt:
  assumes "select_provider gw provider = Some p"
    and "effective_retry_count gw retry_count \<le> 0"
  shows "generate ad gw messages provider retry_count kwargs tr =
           (Inl (Exception (failure_message (effective_retry_count gw retry_count) None)), tr)"
  using assms by (simp add: generate_def attempts_exhausted)

theorem generate_no_attempt_witness:
  "select_provider demo_gateway None = Some (OpenAIProvider openai_config) \<and>
   effective_retry_count demo_gateway (Some 0) \<le> 0 \<and>
   generate upstream_up demo_gateway hi None (Some 0) [] [] =
     (Inl (Exception (failure_message 0 None)), [])"
  using generate_no_attempt[of demo_gateway None "OpenAIProvider openai_config" "Some 0" upstream_up hi "[]" "[]"]
  by (simp add: demo_select effective_retry_count_def)

section \<open>The Claude request and the provider information\<close>

text \<open>
  C8 (as amended). For a complete configuration and keyword options that set neither
  \<^verbatim>\<open>messages\<close> nor \<^verbatim>\<open>system\<close>, the \<^verbatim>\<open>messages\<close> entry of the payload is the list of the
  messages whose role is not \<^verbatim>\<open>system\<close>, in their order. The payload has a \<^verbatim>\<open>system\<close>
  entry exactly when there is a system message and the content of the last one is not empty
  (\<^verbatim>\<open>if system_message:\<close>); the entry is that content.
\<close>

theorem claude_payload_system:
  assumes "ClaudeProvider_payload cfg messages kwargs = Inr payload"
    and "map_of kwargs ''messages'' = None" and "map_of kwargs ''system'' = None"
  shows "map_of payload ''messages'' =
           Some (PList (map to_dict (filter (\<lambda>m. role m \<noteq> ''system'') messages))) \<and>
         map_of payload ''system'' =
           (case filter (\<lambda>m. role m = ''system'') messages of
              [] \<Rightarrow> None
            | ss \<Rightarrow> if content (last ss) = [] then None else Some (PStr (content (last ss))))"
  using assms
  by (auto simp: ClaudeProvider_payload_def split_system_eq map_of_dict_merge update_conv'
      split: if_splits list.splits)

theorem claude_payload_system_witness:
  "ClaudeProvider_payload claude_config brief [(''temperature'', PInt 0)] =
     Inr [(''model'', PStr ''claude-3-haiku-20240307''), (''max_tokens'', PInt 2000),
          (''messages'', PList [to_dict \<lparr>role = ''user'', content = ''hi''\<rparr>]),
          (''temperature'', PInt 0), (''system'', PStr ''Be brief.'')] \<and>
   map_of [(''temperature'', PInt 0)] ''messages'' = None \<and>
   map_of [(''temperature'', PInt 0)] ''system'' = None \<and>
   map_of [(''model'', PStr ''claude-3-haiku-20240307''), (''max_tokens'', PInt 2000),
          (''messages'', PList [to_dict \<lparr>role = ''user'', content = ''hi''\<rparr>]),
          (''temperature'', PInt 0), (''system'', PStr ''Be brief.'')] ''system'' = Some (PStr ''Be brief.'')"
  using claude_payload_system[of claude_config brief "[(''temperature'', PInt 0)]"]
  by (simp add: ClaudeProvider_payload_def ClaudeProvider_validate_config_def dict_has_def dict_get_def
      claude_config_def brief_def split_system_def dict_merge_def)

text \<open>
  C8 as stated fails: a system message with empty content is present, and the payload has
  no \<^verbatim>\<open>system\<close> entry.
\<close>

theorem claude_payload_drops_empty_system:
  "ClaudeProvider_payload claude_config
     [\<lparr>role = ''system'', content = ''''\<rparr>, \<lparr>role = ''user'', content = ''hi''\<rparr>] [] =
     Inr [(''model'', PStr ''claude-3-haiku-20240307''), (''max_tokens'', PInt 2000),
          (''messages'', PList [to_dict \<lparr>role = ''user'', content = ''hi''\<rparr>])] \<and>
   map_of [(''model'', PStr ''claude-3-haiku-20240307''), (''max_tokens'', PInt 2000),
          (''messages'', PList [to_dict \<lparr>role = ''user'', content = ''hi''\<rparr>])] ''system'' = None"
  by (simp add: ClaudeProvider_payload_def ClaudeProvider_validate_config_def dict_has_def dict_get_def
      claude_config_def split_system_def dict_merge_def)

text \<open>
  C9. For a registered name, \<^verbatim>\<open>get_provider_info\<close> returns the provider's name and a copy
  of its configuration with the same keys in the same order, where the value of every key
  whose lower-case form (\<^verbatim>\<open>k.lower()\<close>) contains \<^verbatim>\<open>key\<close> is \<^verbatim>\<open>"***"\<close> and every
  other value is kept. For an ASCII key this says: the value is replaced exactly when the
  key has three consecutive characters \<^verbatim>\<open>k\<close> or \<^verbatim>\<open>K\<close>, \<^verbatim>\<open>e\<close> or \<^verbatim>\<open>E\<close>, \<^verbatim>\<open>y\<close> or
  \<^verbatim>\<open>Y\<close>. For a name that is not registered the result is the empty dictionary. The
  hypothesis is what Python guarantees of \<^verbatim>\<open>str.lower\<close> on ASCII text.
\<close>

theorem get_provider_info_masks:
  assumes "\<forall>s. is_ascii s \<longrightarrow> str_lower s = ascii_lower s"
  shows
  "(\<forall>p. providers gw name = Some p \<longrightarrow>
      (\<exists>c. get_provider_info str_lower gw name =
             [(''name'', PStr (provider_name p)), (''config'', PDict c)] \<and>
           length c = length (config p) \<and>
           (\<forall>i<length (config p).
              fst (c ! i) = fst (config p ! i) \<and>
              snd (c ! i) =
                (if \<exists>pre suf. str_lower (fst (config p ! i)) = pre @ ''key'' @ suf
                 then PStr ''***'' else snd (config p ! i)) \<and>
              (is_ascii (fst (config p ! i)) \<longrightarrow>
                 snd (c ! i) =
                   (if \<exists>pre a b c suf. fst (config p ! i) = pre @ [a, b, c] @ suf \<and>
                         (a = CHR ''k'' \<or> a = CHR ''K'') \<and> (b = CHR ''e'' \<or> b = CHR ''E'') \<and>
                         (c = CHR ''y'' \<or> c = CHR ''Y'')
                    then PStr ''***'' else snd (config p ! i)))))) \<and>
   (providers gw name = None \<longrightarrow> get_provider_info str_lower gw name = [])"
proof -
  have masked: "snd (map (\<lambda>(k, v). (k, if str_contains ''key'' (str_lower k) then PStr ''***'' else v)) cfg ! i) =
      (if \<exists>pre suf. str_lower (fst (cfg ! i)) = pre @ ''key'' @ suf then PStr ''***'' else snd (cfg ! i))"
    and key: "fst (map (\<lambda>(k, v). (k, if str_contains ''key'' (str_lower k) then PStr ''***'' else v)) cfg ! i) = fst (cfg ! i)"
    if "i < length cfg" for cfg :: pydict and i
    using that by (simp_all add: str_contains_iff split: prod.splits)
  have ascii: "(\<exists>pre suf. str_lower k = pre @ ''key'' @ suf) \<longleftrightarrow>
     (\<exists>pre a b c suf. k = pre @ [a, b, c] @ suf \<and>
         (a = CHR ''k'' \<or> a = CHR ''K'') \<and> (b = CHR ''e'' \<or> b = CHR ''E'') \<and>
         (c = CHR ''y'' \<or> c = CHR ''Y''))" if "is_ascii k" for k
    using assms that ascii_lower_contains_key[of k] by simp
  show ?thesis
  proof (intro conjI allI impI)
    fix p assume p: "providers gw name = Some p"
    let ?c = "map (\<lambda>(k, v). (k, if str_contains ''key'' (str_lower k) then PStr ''***'' else v)) (config p)"
    have "get_provider_info str_lower gw name = [(''name'', PStr (provider_name p)), (''config'', PDict ?c)]"
      using p by (simp add: get_provider_info_def)
    moreover have "length ?c = length (config p)" by simp
    moreover have "\<forall>i<length (config p).
              fst (?c ! i) = fst (config p ! i) \<and>
              snd (?c ! i) =
                (if \<exists>pre suf. str_lower (fst (config p ! i)) = pre @ ''key'' @ suf
                 then PStr ''***'' else snd (config p ! i)) \<and>
              (is_ascii (fst (config p ! i)) \<longrightarrow>
                 snd (?c ! i) =
                   (if \<exists>pre a b c suf. fst (config p ! i) = pre @ [a, b, c] @ suf \<and>
                         (a = CHR ''k'' \<or> a = CHR ''K'') \<and> (b = CHR ''e'' \<or> b = CHR ''E'') \<and>
                         (c = CHR ''y'' \<or> c = CHR ''Y'')
                    then PStr ''***'' else snd (config p ! i)))"
      using masked[of _ "config p"] key[of _ "config p"] ascii by simp
    ultimately show "\<exists>c. get_provider_info str_lower gw name =
             [(''name'', PStr (provider_name p)), (''config'', PDict c)] \<and>
           length c = length (config p) \<and>
           (\<forall>i<length (config p).
              fst (c ! i) = fst (config p ! i) \<and>
              snd (c ! i) =
                (if \<exists>pre suf. str_lower (fst (config p ! i)) = pre @ ''key'' @ suf
                 then PStr ''***'' else snd (config p ! i)) \<and>
              (is_ascii (fst (config p ! i)) \<longrightarrow>
                 snd (c ! i) =
                   (if \<exists>pre a b c suf. fst (config p ! i) = pre @ [a, b, c] @ suf \<and>
                         (a = CHR ''k'' \<or> a = CHR ''K'') \<and> (b = CHR ''e'' \<or> b = CHR ''E'') \<and>
                         (c = CHR ''y'' \<or> c = CHR ''Y'')
                    then PStr ''***'' else snd (config p ! i))))"
      by blast
  next
    assume "providers gw name = None"
    then show "get_provider_info str_lower gw name = []" by (simp add: get_provider_info_def)
  qed
qed

theorem get_provider_info_masks_witness:
  "providers mixed_case_gateway ''openai'' = Some (OpenAIProvider mixed_case_config) \<and>
   is_ascii ''API_KEY'' \<and> is_ascii ''Api_Base'' \<and> is_ascii ''model'' \<and> is_ascii ''KeyFile'' \<and>
   get_provider_info ascii_lower mixed_case_gateway ''openai'' =
     [(''name'', PStr ''openai''),
      (''config'', PDict [(''API_KEY'', PStr ''***''),
                          (''Api_Base'', PStr ''https://api.openai.com/v1''),
                          (''model'', PStr ''gpt-4''),
                          (''KeyFile'', PStr ''***'')])] \<and>
   providers mixed_case_gateway ''kimi'' = None \<and>
   get_provider_info ascii_lower mixed_case_gateway ''kimi'' = []"
  using get_provider_info_masks[of ascii_lower mixed_case_gateway "''openai''"]
    get_provider_info_masks[of ascii_lower mixed_case_gateway "''kimi''"]
  by (simp add: get_provider_info_def mixed_case_gateway_providers OpenAIProvider_def
      mixed_case_config_def ascii_lower_def ascii_lower_char_def is_ascii_def)

end
